theory Spec2Isabelle
  imports Main "HOL-Library.AList" "HOL-Library.Sublist" "HOL-Library.Word"
begin

section \<open>Python strings\<close>

text \<open>
  A Python \<open>str\<close> is a sequence of Unicode code points; a code point is a natural
  number here, so that \<open>len\<close>, slicing, \<open>strip\<close> and \<open>split\<close> count what Python counts.
  \<open>py\<close> turns an ASCII literal into such a sequence.
\<close>

type_synonym pystr = "nat list"

definition py :: "string \<Rightarrow> pystr" where
  "py s = map of_char s"

text \<open>\<open>str.isspace\<close> for one code point: the 29 code points CPython treats as whitespace.\<close>

definition isspace :: "nat \<Rightarrow> bool" where
  "isspace c =
     ((9 \<le> c \<and> c \<le> 13) \<or> (28 \<le> c \<and> c \<le> 32) \<or> c = 133 \<or> c = 160 \<or> c = 5760
      \<or> (8192 \<le> c \<and> c \<le> 8202) \<or> c = 8232 \<or> c = 8233 \<or> c = 8239 \<or> c = 8287
      \<or> c = 12288)"

text \<open>\<open>s.strip()\<close>: leading and trailing whitespace removed.\<close>

definition py_strip :: "pystr \<Rightarrow> pystr" where
  "py_strip s = rev (dropWhile isspace (rev (dropWhile isspace s)))"

text \<open>
  \<open>s.split(sep)\<close> for a one-character separator: the pieces between the separators,
  empty pieces kept, so the result always has one piece more than \<open>s\<close> has separators.
\<close>

fun py_split :: "nat \<Rightarrow> pystr \<Rightarrow> pystr list" where
  "py_split sep [] = [[]]"
| "py_split sep (c # cs) =
     (if c = sep then [] # py_split sep cs
      else (case py_split sep cs of
              [] \<Rightarrow> [[c]]
            | p # ps \<Rightarrow> (c # p) # ps))"

text \<open>\<open>sep.join(xs)\<close>.\<close>

fun join :: "pystr \<Rightarrow> pystr list \<Rightarrow> pystr" where
  "join sep [] = []"
| "join sep [x] = x"
| "join sep (x # y # ys) = x @ sep @ join sep (y # ys)"

text \<open>The decimal digits of a natural number, as \<open>str(n)\<close> prints them.\<close>

function decimal :: "nat \<Rightarrow> pystr" where
  "decimal n = (if n < 10 then [48 + n] else decimal (n div 10) @ [48 + n mod 10])"
  by pat_completeness auto
termination
  by (relation "measure id") auto

declare decimal.simps [simp del]

definition hexdigit :: "nat \<Rightarrow> nat" where
  "hexdigit n = (if n < 10 then 48 + n else 87 + n)"

section \<open>Python values and dictionaries\<close>

text \<open>
  The values a stored document, a filter expression or a response body holds. A Mongo
  \<open>ObjectId\<close> is 12 bytes, a 96-bit word. A \<open>dict\<close> is an association list in insertion
  order; \<open>d[k] = v\<close> replaces in place or appends (\<open>AList.update\<close>), \<open>d.pop(k, None)\<close>
  removes the key (\<open>AList.delete\<close>), \<open>d.get(k)\<close> is \<open>None\<close> for a missing key.
  Floating-point numbers and dates are not modelled.
\<close>

datatype pyval =
    VNone
  | VBool bool
  | VInt int
  | VStr pystr
  | VObjectId "96 word"
  | VList "pyval list"
  | VDict "(pystr \<times> pyval) list"

type_synonym pydict = "(pystr \<times> pyval) list"

definition dict_get :: "pydict \<Rightarrow> pystr \<Rightarrow> pyval" where
  "dict_get d k = (case map_of d k of None \<Rightarrow> VNone | Some v \<Rightarrow> v)"

definition dict_set :: "pystr \<Rightarrow> pyval \<Rightarrow> pydict \<Rightarrow> pydict" where
  "dict_set k v d = AList.update k v d"

definition dict_pop :: "pystr \<Rightarrow> pydict \<Rightarrow> pydict" where
  "dict_pop k d = AList.delete k d"

text \<open>\<open>str(ObjectId)\<close>: 24 lower-case hexadecimal digits, most significant first.\<close>

definition oid_str :: "96 word \<Rightarrow> pystr" where
  "oid_str w = map (\<lambda>i. hexdigit (unat (take_bit 4 (drop_bit (4 * i) w)))) (rev [0..<24])"

text \<open>
  \<open>repr\<close> of a \<open>str\<close>: single quotes unless the text holds a single and no double quote;
  the quote and the backslash are escaped, tab, newline and carriage return are written
  \<open>\t \n \r\<close>, other ASCII control characters \<open>\xhh\<close>. Code points beyond ASCII are
  copied (CPython escapes the non-printable ones among them; that is not modelled).
\<close>

definition repr_quote :: "pystr \<Rightarrow> nat" where
  "repr_quote s = (if 39 \<in> set s \<and> 34 \<notin> set s then 34 else 39)"

definition repr_char :: "nat \<Rightarrow> nat \<Rightarrow> pystr" where
  "repr_char quote c =
     (if c = quote \<or> c = 92 then [92, c]
      else if c = 9 then [92, 116]
      else if c = 10 then [92, 110]
      else if c = 13 then [92, 114]
      else if c < 32 \<or> c = 127 then [92, 120, hexdigit (c div 16), hexdigit (c mod 16)]
      else [c])"

definition repr_str :: "pystr \<Rightarrow> pystr" where
  "repr_str s = repr_quote s # concat (map (repr_char (repr_quote s)) s) @ [repr_quote s]"

fun py_repr :: "pyval \<Rightarrow> pystr" where
  "py_repr VNone = py ''None''"
| "py_repr (VBool b) = (if b then py ''True'' else py ''False'')"
| "py_repr (VInt i) = (if i < 0 then py ''-'' @ decimal (nat (- i)) else decimal (nat i))"
| "py_repr (VStr s) = repr_str s"
| "py_repr (VObjectId w) = py ''ObjectId('' @ [39] @ oid_str w @ [39] @ py '')''"
| "py_repr (VList xs) = py ''['' @ join (py '', '') (map py_repr xs) @ py '']''"
| "py_repr (VDict kvs) =
     py ''{'' @ join (py '', '') (map (\<lambda>kv. repr_str (fst kv) @ py '': '' @ py_repr (snd kv)) kvs)
       @ py ''}''"

text \<open>\<open>str(v)\<close>: the text itself for a \<open>str\<close>, the hexadecimal form for an \<open>ObjectId\<close>,
  \<open>repr\<close> otherwise.\<close>

definition py_str :: "pyval \<Rightarrow> pystr" where
  "py_str v = (case v of VStr s \<Rightarrow> s | VObjectId w \<Rightarrow> oid_str w | _ \<Rightarrow> py_repr v)"

section \<open>Failures and the \<open>database\<close> module\<close>

text \<open>
  An exception carries its message (\<open>str(e)\<close>). A request ends in a response body or in
  a failure: an \<open>HTTPException\<close> raised by the handler, the framework's rejection of a
  parameter that violates its declaration (status 422), or an exception the handler does
  not catch (status 500).
\<close>

datatype py_exception = PyException pystr

fun message :: "py_exception \<Rightarrow> pystr" where
  "message (PyException m) = m"

datatype failure =
    HTTPException int pystr
  | RequestValidationError
  | Unhandled py_exception

fun status_code :: "failure \<Rightarrow> int" where
  "status_code (HTTPException c d) = c"
| "status_code RequestValidationError = 422"
| "status_code (Unhandled e) = 500"

text \<open>
  \<open>from database import db, create_document, get_documents\<close>: the module is not among
  the source files, so its three names are parameters. \<open>db\<close> is the store handle or
  \<open>None\<close>; the two functions act on a store state \<open>'s\<close> that is passed explicitly, and
  either return or raise.
\<close>

record 's db_handle =
  db_name :: "pyval option"
  list_collection_names :: "'s \<Rightarrow> (py_exception + pyval list) \<times> 's"

record 's database =
  db :: "'s db_handle option"
  get_documents :: "pystr \<Rightarrow> pydict \<Rightarrow> int \<Rightarrow> 's \<Rightarrow> (py_exception + pydict list) \<times> 's"
  create_document :: "pystr \<Rightarrow> pydict \<Rightarrow> 's \<Rightarrow> (py_exception + pyval) \<times> 's"

section \<open>\<open>list_employees\<close>\<close>

text \<open>The eight sub-clauses \<open>{field: {"$regex": q, "$options": "i"}}\<close> of lines 98--107.\<close>

definition regex_i :: "pystr \<Rightarrow> pyval" where
  "regex_i q = VDict [(py ''$regex'', VStr q), (py ''$options'', VStr (py ''i''))]"

definition or_clauses :: "pystr \<Rightarrow> pyval list" where
  "or_clauses q =
     [VDict [(py ''firstName'', regex_i q)],
      VDict [(py ''lastName'', regex_i q)],
      VDict [(py ''full_name'', regex_i q)],
      VDict [(py ''title'', regex_i q)],
      VDict [(py ''department'', regex_i q)],
      VDict [(py ''email'', regex_i q)],
      VDict [(py ''phone'', regex_i q)],
      VDict [(py ''location'', regex_i q)]]"

text \<open>\<open>[t.strip() for t in tags.split(",") if t.strip()]\<close>\<close>

definition tag_list :: "pystr \<Rightarrow> pystr list" where
  "tag_list tags = [py_strip t. t \<leftarrow> py_split 44 tags, py_strip t \<noteq> []]"

text \<open>
  Lines 94--121: the filter dictionary. \<open>if q:\<close> on an optional string is true for a
  present, non-empty string; \<open>isActive\<close> is tested with \<open>is not None\<close>.
\<close>

definition filter_query ::
  "pystr option \<Rightarrow> pystr option \<Rightarrow> pystr option \<Rightarrow> bool option \<Rightarrow> pystr option \<Rightarrow> pydict" where
  "filter_query q department location isActive tags =
     (let fq0 = [];
          fq1 = (case q of
                   Some qs \<Rightarrow> if qs \<noteq> [] then dict_set (py ''$or'') (VList (or_clauses qs)) fq0 else fq0
                 | None \<Rightarrow> fq0);
          fq2 = (case department of
                   Some dep \<Rightarrow> if dep \<noteq> [] then dict_set (py ''department'') (VStr dep) fq1 else fq1
                 | None \<Rightarrow> fq1);
          fq3 = (case location of
                   Some loc \<Rightarrow> if loc \<noteq> [] then dict_set (py ''location'') (VStr loc) fq2 else fq2
                 | None \<Rightarrow> fq2);
          fq4 = (case isActive of
                   Some act \<Rightarrow> dict_set (py ''isActive'') (VBool act) fq3
                 | None \<Rightarrow> fq3);
          fq5 = (case tags of
                   Some ts \<Rightarrow>
                     if ts \<noteq> [] then
                       (if tag_list ts \<noteq> []
                        then dict_set (py ''tags'') (VDict [(py ''$all'', VList (map VStr (tag_list ts)))]) fq4
                        else fq4)
                     else fq4
                 | None \<Rightarrow> fq4)
      in fq5)"

text \<open>Lines 126--128, the body of the loop over the documents found.\<close>

definition normalize_doc :: "pydict \<Rightarrow> pydict" where
  "normalize_doc d =
     dict_pop (py ''_id'') (dict_set (py ''id'') (VStr (py_str (dict_get d (py ''_id'')))) d)"

text \<open>
  The function body, lines 91--130. An exception of \<open>get_documents\<close> is not caught.
  The documents a store returns are separate objects, so the loop visits each once.
\<close>

definition list_employees ::
  "'s database \<Rightarrow> pystr option \<Rightarrow> pystr option \<Rightarrow> pystr option \<Rightarrow> bool option \<Rightarrow> pystr option
     \<Rightarrow> int \<Rightarrow> 's \<Rightarrow> (failure + pydict) \<times> 's" where
  "list_employees dbm q department location isActive tags limit s =
     (case db dbm of
        None \<Rightarrow> (Inl (HTTPException 500 (py ''Database not configured'')), s)
      | Some h \<Rightarrow>
          (case get_documents dbm (py ''employee'')
                  (filter_query q department location isActive tags) limit s of
             (Inl e, s') \<Rightarrow> (Inl (Unhandled e), s')
           | (Inr docs, s') \<Rightarrow>
               (let docs' = map normalize_doc docs
                in (Inr [(py ''items'', VList (map VDict docs')),
                         (py ''count'', VInt (int (length docs')))], s'))))"

text \<open>
  The declaration \<open>limit: int = Query(default=200, le=500)\<close> of line 89: the framework
  supplies the default and rejects a value above 500 before the function is called.
\<close>

definition limit_param :: "int option \<Rightarrow> failure + int" where
  "limit_param limit =
     (case limit of
        None \<Rightarrow> Inr 200
      | Some n \<Rightarrow> if n \<le> 500 then Inr n else Inl RequestValidationError)"

text \<open>A request to \<open>GET /api/employees\<close>: the parameter check, then the function.\<close>

definition list_employees_request ::
  "'s database \<Rightarrow> pystr option \<Rightarrow> pystr option \<Rightarrow> pystr option \<Rightarrow> bool option \<Rightarrow> pystr option
     \<Rightarrow> int option \<Rightarrow> 's \<Rightarrow> (failure + pydict) \<times> 's" where
  "list_employees_request dbm q department location isActive tags limit s =
     (case limit_param limit of
        Inl e \<Rightarrow> (Inl e, s)
      | Inr n \<Rightarrow> list_employees dbm q department location isActive tags n s)"

section \<open>\<open>seed_employees\<close>\<close>

text \<open>The three hard-coded records of lines 137--183; Arabic text as code points.\<close>

definition sample :: "pydict list" where
  "sample =
    [[(py ''firstName'', VStr [1571, 1605, 1610, 1606]),
      (py ''lastName'', VStr [1576, 1606, 32, 1589, 1575, 1604, 1581]),
      (py ''full_name'', VStr [1571, 1605, 1610, 1606, 32, 1576, 1606, 32, 1589, 1575, 1604, 1581]),
      (py ''title'', VStr [1605, 1607, 1606, 1583, 1587, 32, 1606, 1592, 1605]),
      (py ''department'', VStr (py ''IT'')),
      (py ''email'', VStr (py ''amine.bensaleh@example.com'')),
      (py ''phone'', VStr (py ''+213560000001'')),
      (py ''office'', VStr (py ''D3-201'')),
      (py ''location'', VStr (py ''Bab Ezzouar'')),
      (py ''photoUrl'', VStr (py ''https://i.pravatar.cc/150?img=1'')),
      (py ''bio'', VStr [1582, 1576, 1610, 1585, 32, 1601, 1610, 32, 1575, 1604, 1576, 1606,
         1610, 1577, 32, 1575, 1604, 1578, 1581, 1578, 1610, 1577, 32, 1608, 1575, 1604, 1588,
         1576, 1603, 1575, 1578, 46]),
      (py ''tags'', VList [VStr (py ''Linux''), VStr (py ''Networking''), VStr (py ''DevOps'')]),
      (py ''isActive'', VBool True)],
     [(py ''firstName'', VStr [1604, 1610, 1604, 1609]),
      (py ''lastName'', VStr [1602, 1575, 1587, 1605]),
      (py ''full_name'', VStr [1604, 1610, 1604, 1609, 32, 1602, 1575, 1587, 1605]),
      (py ''title'', VStr [1605, 1608, 1575, 1585, 1583, 32, 1576, 1588, 1585, 1610, 1577]),
      (py ''department'', VStr (py ''HR'')),
      (py ''email'', VStr (py ''leila.kacem@example.com'')),
      (py ''phone'', VStr (py ''+213560000002'')),
      (py ''office'', VStr (py ''D3-105'')),
      (py ''location'', VStr (py ''Bab Ezzouar'')),
      (py ''photoUrl'', VStr (py ''https://i.pravatar.cc/150?img=5'')),
      (py ''bio'', VStr [1578, 1591, 1608, 1610, 1585, 32, 1575, 1604, 1605, 1608, 1575, 1607,
         1576, 32, 1608, 1579, 1602, 1575, 1601, 1577, 32, 1575, 1604, 1605, 1572, 1587, 1587,
         1577, 46]),
      (py ''tags'', VList [VStr (py ''Recruitment''), VStr (py ''Culture'')]),
      (py ''isActive'', VBool True)],
     [(py ''firstName'', VStr [1605, 1585, 1608, 1575, 1606]),
      (py ''lastName'', VStr [1588, 1585, 1602, 1610]),
      (py ''full_name'', VStr [1605, 1585, 1608, 1575, 1606, 32, 1588, 1585, 1602, 1610]),
      (py ''title'', VStr [1605, 1581, 1575, 1587, 1576]),
      (py ''department'', VStr (py ''Finance'')),
      (py ''email'', VStr (py ''marouane.cherki@example.com'')),
      (py ''phone'', VStr (py ''+213560000003'')),
      (py ''office'', VStr (py ''D3-009'')),
      (py ''location'', VStr (py ''Bab Ezzouar'')),
      (py ''photoUrl'', VStr (py ''https://i.pravatar.cc/150?img=8'')),
      (py ''bio'', VStr [1573, 1583, 1575, 1585, 1577, 32, 1575, 1604, 1605, 1610, 1586, 1575,
         1606, 1610, 1575, 1578, 32, 1608, 1575, 1604, 1578, 1602, 1575, 1585, 1610, 1585, 46]),
      (py ''tags'', VList [VStr (py ''Accounting''), VStr (py ''Excel'')]),
      (py ''isActive'', VBool True)]]"

text \<open>
  Lines 185--191: the loop with its \<open>try\<close>/\<open>except Exception: pass\<close>. \<open>ins\<close> is
  \<open>create_document("employee", _)\<close>; a raised exception leaves the counter as it is.
\<close>

fun seed_loop ::
  "(pydict \<Rightarrow> 's \<Rightarrow> (py_exception + pyval) \<times> 's) \<Rightarrow> pydict list \<Rightarrow> int \<Rightarrow> 's \<Rightarrow> int \<times> 's" where
  "seed_loop ins [] inserted s = (inserted, s)"
| "seed_loop ins (d # ds) inserted s =
     (case ins d s of
        (Inr r, s') \<Rightarrow> seed_loop ins ds (inserted + 1) s'
      | (Inl e, s') \<Rightarrow> seed_loop ins ds inserted s')"

definition seed_employees :: "'s database \<Rightarrow> 's \<Rightarrow> (failure + pydict) \<times> 's" where
  "seed_employees dbm s =
     (case db dbm of
        None \<Rightarrow> (Inl (HTTPException 500 (py ''Database not configured'')), s)
      | Some h \<Rightarrow>
          (case seed_loop (create_document dbm (py ''employee'')) sample 0 s of
             (inserted, s') \<Rightarrow> (Inr [(py ''inserted'', VInt inserted)], s')))"

section \<open>\<open>test_database\<close>\<close>

text \<open>
  What \<open>from database import db\<close> inside the \<open>try\<close> can do: raise \<open>ImportError\<close>, raise
  another exception, or bind \<open>db\<close>. The environment is a lookup function
  (\<open>os.getenv\<close>); a variable that is unset or empty is false in \<open>if\<close>.
\<close>

datatype 's import_outcome =
    ImportError
  | ImportRaises py_exception
  | Imported "'s db_handle option"

definition env_set :: "(pystr \<Rightarrow> pystr option) \<Rightarrow> pystr \<Rightarrow> bool" where
  "env_set getenv name = (case getenv name of None \<Rightarrow> False | Some v \<Rightarrow> v \<noteq> [])"

definition response0 :: pydict where
  "response0 =
     [(py ''backend'', VStr ([9989] @ py '' Running'')),
      (py ''database'', VStr ([10060] @ py '' Not Available'')),
      (py ''database_url'', VNone),
      (py ''database_name'', VNone),
      (py ''connection_status'', VStr (py ''Not Connected'')),
      (py ''collections'', VList [])]"

definition test_database ::
  "'s import_outcome \<Rightarrow> (pystr \<Rightarrow> pystr option) \<Rightarrow> 's \<Rightarrow> pydict \<times> 's" where
  "test_database imp getenv s =
     (case
        (case imp of
           ImportError \<Rightarrow>
             (dict_set (py ''database'')
                (VStr ([10060] @ py '' Database module not found (run enable-database first)''))
                response0, s)
         | ImportRaises e \<Rightarrow>
             (dict_set (py ''database'') (VStr ([10060] @ py '' Error: '' @ take 50 (message e)))
                response0, s)
         | Imported None \<Rightarrow>
             (dict_set (py ''database'')
                (VStr ([9888, 65039] @ py ''  Available but not initialized'')) response0, s)
         | Imported (Some h) \<Rightarrow>
             (let r1 = dict_set (py ''database'') (VStr ([9989] @ py '' Available'')) response0;
                  r2 = dict_set (py ''database_url'') (VStr ([9989] @ py '' Configured'')) r1;
                  r3 = dict_set (py ''database_name'')
                         (case db_name h of
                            Some n \<Rightarrow> n
                          | None \<Rightarrow> VStr ([9989] @ py '' Connected'')) r2;
                  r4 = dict_set (py ''connection_status'') (VStr (py ''Connected'')) r3
              in (case list_collection_names h s of
                    (Inr collections, s') \<Rightarrow>
                      (dict_set (py ''database'') (VStr ([9989] @ py '' Connected & Working''))
                         (dict_set (py ''collections'') (VList (take 10 collections)) r4), s')
                  | (Inl e, s') \<Rightarrow>
                      (dict_set (py ''database'')
                         (VStr ([9888, 65039] @ py ''  Connected but Error: '' @ take 50 (message e)))
                         r4, s')))) of
        (response, s') \<Rightarrow>
          (let r5 = dict_set (py ''database_url'')
                      (VStr (if env_set getenv (py ''DATABASE_URL'')
                             then [9989] @ py '' Set'' else [10060] @ py '' Not Set'')) response;
               r6 = dict_set (py ''database_name'')
                      (VStr (if env_set getenv (py ''DATABASE_NAME'')
                             then [9989] @ py '' Set'' else [10060] @ py '' Not Set'')) r5
           in (r6, s')))"

section \<open>The document store\<close>

text \<open>
  The store behind \<open>get_documents\<close> and \<open>create_document\<close> belongs to the module
  \<open>database\<close>, which is not among the source files. The definitions of this section
  follow the specification's description of it: section 6 ("find documents in a named
  collection matching a filter expression, capped at N results"; "insert one document
  into a named collection, returning its assigned identifier or failing") and
  section 4.1 for the meaning of the clauses of a filter.
\<close>

text \<open>
  Modelled from the spec: the characters a pattern-matching operator reads specially
  (sections 4.1 and 9: \<open>q\<close> reaches the operator "without escaping special
  characters"): \<open>\ ^ $ . | ? * + ( ) [ ] { }\<close>.
\<close>

definition metachar :: "nat \<Rightarrow> bool" where
  "metachar c = (c \<in> set [92, 94, 36, 46, 124, 63, 42, 43, 40, 41, 91, 93, 123, 125])"

text \<open>
  Modelled from the spec: case-insensitive comparison (section 4.1) folds the case of
  the ASCII letters; cased letters beyond ASCII are compared as they are.
\<close>

definition lower :: "nat \<Rightarrow> nat" where
  "lower c = (if 65 \<le> c \<and> c \<le> 90 then c + 32 else c)"

text \<open>
  Modelled from the spec: the pattern-matching operator behind \<open>$regex\<close>, which the
  store applies to the unescaped text (sections 4.1 and 9). It is modelled on the
  patterns whose only metacharacter is the wildcard \<open>.\<close> (any character but a newline):
  every other character of such a pattern stands for itself. \<open>match_here\<close> matches the
  pattern at the start of the subject, \<open>regex_search\<close> anywhere in it; the flag is option
  \<open>i\<close>. A pattern that holds another metacharacter is outside this model.
\<close>

fun match_here :: "bool \<Rightarrow> pystr \<Rightarrow> pystr \<Rightarrow> bool" where
  "match_here ci [] s = True"
| "match_here ci (p # ps) [] = False"
| "match_here ci (p # ps) (c # cs) =
     ((if p = 46 then c \<noteq> 10 else if ci then lower p = lower c else p = c)
      \<and> match_here ci ps cs)"

text \<open>Modelled from the spec: the same operator, searching the whole subject.\<close>

fun regex_search :: "bool \<Rightarrow> pystr \<Rightarrow> pystr \<Rightarrow> bool" where
  "regex_search ci pat [] = match_here ci pat []"
| "regex_search ci pat (c # cs) = (match_here ci pat (c # cs) \<or> regex_search ci pat cs)"

text \<open>
  Modelled from the spec: one condition of a filter against the value a record holds for
  the field, if any (section 4.1). \<open>{"$regex": p, "$options": o}\<close> matches a text field
  with the pattern \<open>p\<close>; \<open>{"$all": [...]}\<close> requires the record's list to hold every listed
  value; any other value is an exact equality match.
\<close>

definition cond_holds :: "pyval \<Rightarrow> pyval option \<Rightarrow> bool" where
  "cond_holds c fv =
     (case c of
        VDict cd \<Rightarrow>
          (case map_of cd (py ''$regex'') of
             Some (VStr pat) \<Rightarrow>
               (case fv of
                  Some (VStr s) \<Rightarrow>
                    regex_search (map_of cd (py ''$options'') = Some (VStr (py ''i''))) pat s
                | _ \<Rightarrow> False)
           | _ \<Rightarrow>
               (case map_of cd (py ''$all'') of
                  Some (VList wanted) \<Rightarrow>
                    (case fv of
                       Some (VList have) \<Rightarrow> list_all (\<lambda>w. w \<in> set have) wanted
                     | _ \<Rightarrow> False)
                | _ \<Rightarrow> fv = Some c))
      | _ \<Rightarrow> fv = Some c)"

text \<open>Modelled from the spec: a clause \<open>field: condition\<close> of a filter, on a record.\<close>

definition clause_holds :: "pydict \<Rightarrow> pystr \<times> pyval \<Rightarrow> bool" where
  "clause_holds doc kc = cond_holds (snd kc) (map_of doc (fst kc))"

text \<open>Modelled from the spec: one alternative of an \<open>$or\<close>, itself a list of clauses.\<close>

definition alternative_holds :: "pydict \<Rightarrow> pyval \<Rightarrow> bool" where
  "alternative_holds doc a =
     (case a of VDict f \<Rightarrow> list_all (clause_holds doc) f | _ \<Rightarrow> False)"

text \<open>
  Modelled from the spec: a record matches a filter when every top-level clause holds
  (section 4.1: "combined with logical AND at the top level"); the clause \<open>$or\<close> holds
  when one of its alternatives does.
\<close>

definition matches :: "pydict \<Rightarrow> pydict \<Rightarrow> bool" where
  "matches flt doc =
     list_all (\<lambda>kc. if fst kc = py ''$or''
                     then (case snd kc of
                             VList alts \<Rightarrow> list_ex (alternative_holds doc) alts
                           | _ \<Rightarrow> False)
                     else clause_holds doc kc) flt"

text \<open>
  Modelled from the spec: a store in memory (section 6): the records of each collection
  in insertion order, the next identifier to assign, and a count of the calls made to it.
\<close>

record mem_store =
  stored :: "(pystr \<times> pydict) list"
  next_id :: "96 word"
  calls :: nat

text \<open>
  Modelled from the spec: \<open>get_documents\<close>, "find documents in a named collection
  matching a filter expression, capped at N results".
\<close>

definition mem_get_documents ::
  "pystr \<Rightarrow> pydict \<Rightarrow> int \<Rightarrow> mem_store \<Rightarrow> (py_exception + pydict list) \<times> mem_store" where
  "mem_get_documents coll flt n st =
     (Inr (take (nat n) (filter (matches flt) (map snd (filter (\<lambda>cd. fst cd = coll) (stored st))))),
      st\<lparr>calls := calls st + 1\<rparr>)"

text \<open>
  Modelled from the spec: \<open>create_document\<close>, "insert one document into a named
  collection, returning its assigned identifier"; the identifier is stored under \<open>_id\<close>.
\<close>

definition mem_create_document ::
  "pystr \<Rightarrow> pydict \<Rightarrow> mem_store \<Rightarrow> (py_exception + pyval) \<times> mem_store" where
  "mem_create_document coll d st =
     (Inr (VStr (oid_str (next_id st))),
      st\<lparr>stored := stored st @ [(coll, dict_set (py ''_id'') (VObjectId (next_id st)) d)],
         next_id := next_id st + 1,
         calls := calls st + 1\<rparr>)"

text \<open>Modelled from the spec: the handle \<open>db\<close> of a configured store, and the module.\<close>

definition mem_handle :: "mem_store db_handle" where
  "mem_handle =
     \<lparr>db_name = Some (VStr (py ''annuaire'')),
      list_collection_names =
        (\<lambda>st. (Inr (map VStr (remdups (map fst (stored st)))), st\<lparr>calls := calls st + 1\<rparr>))\<rparr>"

definition mem_database :: "mem_store database" where
  "mem_database =
     \<lparr>db = Some mem_handle,
      get_documents = mem_get_documents,
      create_document = mem_create_document\<rparr>"

text \<open>
  Modelled from the spec: the same module when the store could not be set up (section 7,
  "store unavailable"): \<open>db\<close> is \<open>None\<close>.
\<close>

definition unconfigured_database :: "mem_store database" where
  "unconfigured_database = mem_database\<lparr>db := None\<rparr>"

text \<open>
  Modelled from the spec: a store whose insertions follow a script (section 6, "or
  failing"): the state is the list of outcomes still to come (\<open>True\<close>: the insertion
  succeeds); an exhausted script fails.
\<close>

definition scripted_create_document ::
  "pystr \<Rightarrow> pydict \<Rightarrow> bool list \<Rightarrow> (py_exception + pyval) \<times> bool list" where
  "scripted_create_document coll d script =
     (case script of
        [] \<Rightarrow> (Inl (PyException (py ''write failed'')), [])
      | ok # rest \<Rightarrow>
          (if ok then (Inr VNone, rest) else (Inl (PyException (py ''write failed'')), rest)))"

definition scripted_database :: "bool list database" where
  "scripted_database =
     \<lparr>db = Some \<lparr>db_name = None, list_collection_names = (\<lambda>s. (Inr [], s))\<rparr>,
      get_documents = (\<lambda>coll flt n s. (Inr [], s)),
      create_document = scripted_create_document\<rparr>"

section \<open>Notions the claims are stated with\<close>

text \<open>The text \<open>s\<close> contains \<open>q\<close> as a substring when the case of ASCII letters is ignored.\<close>

definition contains_ci :: "pystr \<Rightarrow> pystr \<Rightarrow> bool" where
  "contains_ci q s = sublist (map lower q) (map lower s)"

text \<open>The eight fields the free-text search looks at.\<close>

definition search_fields :: "pystr list" where
  "search_fields =
     [py ''firstName'', py ''lastName'', py ''full_name'', py ''title'', py ''department'',
      py ''email'', py ''phone'', py ''location'']"

text \<open>
  A record's field holds a text that contains \<open>q\<close>, respectively a text that the pattern
  \<open>q\<close> matches with option \<open>i\<close>; and the same for at least one of the eight fields.
\<close>

definition field_contains :: "pystr \<Rightarrow> pydict \<Rightarrow> pystr \<Rightarrow> bool" where
  "field_contains q doc f =
     (case map_of doc f of Some (VStr s) \<Rightarrow> contains_ci q s | _ \<Rightarrow> False)"

definition field_matches :: "pystr \<Rightarrow> pydict \<Rightarrow> pystr \<Rightarrow> bool" where
  "field_matches q doc f =
     (case map_of doc f of Some (VStr s) \<Rightarrow> regex_search True q s | _ \<Rightarrow> False)"

definition some_field_contains :: "pystr \<Rightarrow> pydict \<Rightarrow> bool" where
  "some_field_contains q doc = list_ex (field_contains q doc) search_fields"

definition some_field_matches :: "pystr \<Rightarrow> pydict \<Rightarrow> bool" where
  "some_field_matches q doc = list_ex (field_matches q doc) search_fields"

text \<open>The record's \<open>tags\<close> list holds every one of the wanted tags.\<close>

definition has_all_tags :: "pystr list \<Rightarrow> pydict \<Rightarrow> bool" where
  "has_all_tags wanted doc =
     (case map_of doc (py ''tags'') of
        Some (VList have) \<Rightarrow> list_all (\<lambda>w. VStr w \<in> set have) wanted
      | _ \<Rightarrow> False)"

text \<open>
  Inserting each record in turn, whatever the earlier insertions did: the outcomes in
  order, and the store afterwards.
\<close>

fun attempts ::
  "(pydict \<Rightarrow> 's \<Rightarrow> (py_exception + pyval) \<times> 's) \<Rightarrow> pydict list \<Rightarrow> 's
     \<Rightarrow> (py_exception + pyval) list \<times> 's" where
  "attempts ins [] s = ([], s)"
| "attempts ins (d # ds) s =
     (case ins d s of
        (r, s') \<Rightarrow> (case attempts ins ds s' of (rs, s'') \<Rightarrow> (r # rs, s'')))"

definition succeeded :: "(py_exception + pyval) \<Rightarrow> bool" where
  "succeeded r = (case r of Inr v \<Rightarrow> True | Inl e \<Rightarrow> False)"

section \<open>Example data\<close>

text \<open>
  A store holding two employee records with store-assigned identifiers, one carrying
  the tags Linux and DevOps, the other only Linux; and a store holding one record
  whose identifier is the empty string, as a direct insertion can create it.
\<close>

definition example_store :: mem_store where
  "example_store =
     \<lparr>stored =
        [(py ''employee'',
          [(py ''_id'', VObjectId 1), (py ''firstName'', VStr (py ''Leila'')),
           (py ''department'', VStr (py ''HR'')),
           (py ''tags'', VList [VStr (py ''DevOps''), VStr (py ''Linux'')])]),
         (py ''employee'',
          [(py ''_id'', VObjectId 2), (py ''firstName'', VStr (py ''Amine'')),
           (py ''department'', VStr (py ''IT'')),
           (py ''tags'', VList [VStr (py ''Linux'')])])],
      next_id = 3,
      calls = 0\<rparr>"

definition odd_store :: mem_store where
  "odd_store =
     \<lparr>stored = [(py ''employee'', [(py ''_id'', VStr []), (py ''firstName'', VStr (py ''Zed''))])],
      next_id = 1,
      calls = 0\<rparr>"

definition zed_record :: pydict where
  "zed_record = [(py ''firstName'', VStr (py ''Zed''))]"

definition raw_leila :: pydict where
  "raw_leila = [(py ''_id'', VObjectId 1), (py ''firstName'', VStr (py ''Leila''))]"

text \<open>The two records of \<open>example_store\<close> as the list operation returns them.\<close>

definition leila_record :: pydict where
  "leila_record =
     [(py ''firstName'', VStr (py ''Leila'')),
      (py ''department'', VStr (py ''HR'')),
      (py ''tags'', VList [VStr (py ''DevOps''), VStr (py ''Linux'')]),
      (py ''id'', VStr (py ''000000000000000000000001''))]"

definition amine_record :: pydict where
  "amine_record =
     [(py ''firstName'', VStr (py ''Amine'')),
      (py ''department'', VStr (py ''IT'')),
      (py ''tags'', VList [VStr (py ''Linux'')]),
      (py ''id'', VStr (py ''000000000000000000000002''))]"

section \<open>Helper facts about strings and dictionaries\<close>

lemma py_eq_iff [simp]: "py a = py b \<longleftrightarrow> a = b"
  by (simp add: py_def inj_map_eq_map [OF inj_of_char])

lemma py_Nil [simp]: "py [] = []"
  by (simp add: py_def)

lemma py_Cons: "py (c # cs) = of_char c # py cs"
  by (simp add: py_def)

lemma length_oid_str [simp]: "length (oid_str w) = 24"
  by (simp add: oid_str_def)

lemma map_of_normalize:
  "map_of (normalize_doc d) =
     (map_of d)(py ''id'' \<mapsto> VStr (py_str (dict_get d (py ''_id''))), py ''_id'' := None)"
  by (simp add: normalize_doc_def dict_pop_def dict_set_def delete_conv' update_conv')

lemma normalize_no_raw_id: "py ''_id'' \<notin> fst ` set (normalize_doc d)"
  by (simp add: normalize_doc_def dict_pop_def delete_notin_dom)

lemma normalize_without_raw_id:
  "py ''_id'' \<notin> fst ` set d \<Longrightarrow> normalize_doc d = dict_set (py ''id'') (VStr (py ''None'')) d"
proof -
  assume a: "py ''_id'' \<notin> fst ` set d"
  then have "map_of d (py ''_id'') = None"
    by (simp add: map_of_eq_None_iff)
  then have g: "dict_get d (py ''_id'') = VNone"
    by (simp add: dict_get_def)
  have "py ''_id'' \<notin> fst ` set (dict_set (py ''id'') (VStr (py ''None'')) d)"
    using a by (simp add: dict_set_def dom_update)
  then show ?thesis
    by (simp add: normalize_doc_def g py_str_def dict_pop_def)
qed

lemma normalize_thrice: "normalize_doc (normalize_doc (normalize_doc d)) = normalize_doc (normalize_doc d)"
proof -
  have 1: "normalize_doc (normalize_doc d) = dict_set (py ''id'') (VStr (py ''None'')) (normalize_doc d)"
    by (rule normalize_without_raw_id [OF normalize_no_raw_id])
  have "normalize_doc (normalize_doc (normalize_doc d)) = dict_set (py ''id'') (VStr (py ''None'')) (normalize_doc (normalize_doc d))"
    by (rule normalize_without_raw_id [OF normalize_no_raw_id])
  also have "\<dots> = normalize_doc (normalize_doc d)"
    by (subst (2) 1, subst 1) (simp add: dict_set_def)
  finally show ?thesis .
qed

section \<open>The list operation\<close>

lemma list_employees_Inr:
  assumes "list_employees dbm q dep loc act tags limit s = (Inr resp, s')"
  shows "\<exists>raw. get_documents dbm (py ''employee'') (filter_query q dep loc act tags) limit s = (Inr raw, s')
           \<and> resp = [(py ''items'', VList (map VDict (map normalize_doc raw))),
                      (py ''count'', VInt (int (length raw)))]"
  using assms
  by (auto simp: list_employees_def Let_def split: option.splits sum.splits prod.splits)

lemma list_employees_request_Inr:
  assumes "list_employees_request dbm q dep loc act tags limit s = (Inr resp, s')"
  shows "\<exists>n. limit_param limit = Inr n \<and> list_employees dbm q dep loc act tags n s = (Inr resp, s')"
  using assms
  by (auto simp: list_employees_request_def split: sum.splits)

lemma limit_param_Inr:
  "limit_param limit = Inr n \<Longrightarrow> n = (case limit of None \<Rightarrow> 200 | Some m \<Rightarrow> m) \<and> n \<le> 500"
  by (auto simp: limit_param_def split: option.splits if_splits)

text \<open>
  Claim C9. In every successful response of the list operation, the field \<open>count\<close> is
  the number of elements of the list \<open>items\<close>.
\<close>

theorem count_is_length:
  assumes "list_employees_request dbm q dep loc act tags limit s = (Inr resp, s')"
  shows "\<exists>items. map_of resp (py ''items'') = Some (VList items)
           \<and> map_of resp (py ''count'') = Some (VInt (int (length items)))"
proof -
  from list_employees_request_Inr [OF assms] obtain n where
    "list_employees dbm q dep loc act tags n s = (Inr resp, s')" by blast
  from list_employees_Inr [OF this] obtain raw where
    "resp = [(py ''items'', VList (map VDict (map normalize_doc raw))),
             (py ''count'', VInt (int (length raw)))]" by blast
  then show ?thesis by simp
qed

text \<open>
  Claim C4. Whatever the filter parameters, if the call of \<open>get_documents\<close> that the
  request makes returns at most as many documents as the cap it is passed, then the
  number of items returned is at most the requested limit (200 when none is
  requested), and at most 500.
\<close>

theorem limit_bound:
  assumes res: "list_employees_request dbm q dep loc act tags limit s = (Inr resp, s')"
    and cap: "\<forall>docs s1. get_documents dbm (py ''employee'') (filter_query q dep loc act tags)
                 (case limit of None \<Rightarrow> 200 | Some n \<Rightarrow> n) s = (Inr docs, s1)
               \<longrightarrow> int (length docs) \<le> (case limit of None \<Rightarrow> 200 | Some n \<Rightarrow> n)"
  shows "\<exists>items. map_of resp (py ''items'') = Some (VList items)
           \<and> int (length items) \<le> (case limit of None \<Rightarrow> 200 | Some n \<Rightarrow> n)
           \<and> length items \<le> 500"
proof -
  from list_employees_request_Inr [OF res] obtain n where
    n: "limit_param limit = Inr n" and
    l: "list_employees dbm q dep loc act tags n s = (Inr resp, s')" by blast
  from limit_param_Inr [OF n] have
    n_eq: "n = (case limit of None \<Rightarrow> 200 | Some m \<Rightarrow> m)" and n_le: "n \<le> 500" by simp_all
  from list_employees_Inr [OF l] obtain raw where
    g: "get_documents dbm (py ''employee'') (filter_query q dep loc act tags) n s = (Inr raw, s')"
    and r: "resp = [(py ''items'', VList (map VDict (map normalize_doc raw))),
                    (py ''count'', VInt (int (length raw)))]" by blast
  from cap g n_eq have "int (length raw) \<le> n" by simp
  with n_le n_eq r show ?thesis by simp
qed

text \<open>
  Claim C5. A request to the list operation with a limit above 500 is rejected with a
  client error (status 422): no result is returned, and the store is as it was,
  whatever \<open>db\<close>, \<open>get_documents\<close> and \<open>create_document\<close> are, so no call reached it.
\<close>

theorem limit_rejected:
  assumes "500 < n"
  shows "list_employees_request dbm q dep loc act tags (Some n) s = (Inl RequestValidationError, s)
         \<and> 400 \<le> status_code RequestValidationError \<and> status_code RequestValidationError < 500"
  using assms by (simp add: list_employees_request_def limit_param_def)

lemma filter_query_empty:
  "filter_query (Some []) dep loc act tags = filter_query None dep loc act tags"
  "filter_query q (Some []) loc act tags = filter_query q None loc act tags"
  "filter_query q dep (Some []) act tags = filter_query q dep None act tags"
  "filter_query q dep loc act (Some []) = filter_query q dep loc act None"
  by (simp_all add: filter_query_def)

text \<open>
  Claim C10. An empty string for \<open>q\<close>, \<open>department\<close>, \<open>location\<close> or \<open>tags\<close> gives the
  same filter, and so the same outcome of the request, as leaving the parameter out.
\<close>

theorem empty_is_absent:
  "filter_query (Some []) dep loc act tags = filter_query None dep loc act tags
   \<and> filter_query q (Some []) loc act tags = filter_query q None loc act tags
   \<and> filter_query q dep (Some []) act tags = filter_query q dep None act tags
   \<and> filter_query q dep loc act (Some []) = filter_query q dep loc act None
   \<and> list_employees_request dbm (Some []) dep loc act tags limit s
       = list_employees_request dbm None dep loc act tags limit s
   \<and> list_employees_request dbm q (Some []) loc act tags limit s
       = list_employees_request dbm q None loc act tags limit s
   \<and> list_employees_request dbm q dep (Some []) act tags limit s
       = list_employees_request dbm q dep None act tags limit s
   \<and> list_employees_request dbm q dep loc act (Some []) limit s
       = list_employees_request dbm q dep loc act None limit s"
  by (simp only: filter_query_empty list_employees_request_def list_employees_def simp_thms)

lemma seed_loop_attempts:
  "seed_loop ins ds n s =
     (n + int (length (filter succeeded (fst (attempts ins ds s)))), snd (attempts ins ds s))"
  by (induction ds arbitrary: n s)
     (auto simp: succeeded_def split: prod.splits sum.splits)

lemma length_attempts: "length (fst (attempts ins ds s)) = length ds"
proof (induction ds arbitrary: s)
  case Nil
  show ?case by simp
next
  case (Cons d ds)
  obtain r s1 where i: "ins d s = (r, s1)" by (cases "ins d s")
  obtain rs s2 where a: "attempts ins ds s1 = (rs, s2)" by (cases "attempts ins ds s1")
  from Cons [of s1] a have "length rs = length ds" by simp
  with i a show ?case by simp
qed

lemma length_sample: "length sample = 3"
  by (simp add: sample_def)

section \<open>Runs on the example store\<close>

lemmas run_defs =
  list_employees_request_def limit_param_def list_employees_def mem_database_def
  mem_get_documents_def mem_create_document_def mem_handle_def unconfigured_database_def
  filter_query_def matches_def clause_holds_def cond_holds_def alternative_holds_def
  normalize_doc_def dict_set_def dict_pop_def dict_get_def py_str_def
  oid_str_def hexdigit_def upt_rec drop_bit_eq_div take_bit_eq_mod py_Cons
  example_store_def odd_store_def leila_record_def amine_record_def

lemma run_all:
  "list_employees_request mem_database None None None None None None example_store
     = (Inr [(py ''items'', VList [VDict leila_record, VDict amine_record]),
             (py ''count'', VInt 2)], example_store\<lparr>calls := 1\<rparr>)"
  by (simp add: run_defs)

text \<open>The example store: two items, and \<open>count\<close> is 2.\<close>

theorem count_is_length_witness:
  "list_employees_request mem_database None None None None None None example_store
     = (Inr [(py ''items'', VList [VDict leila_record, VDict amine_record]),
             (py ''count'', VInt 2)], example_store\<lparr>calls := 1\<rparr>)
   \<and> (\<exists>items. map_of [(py ''items'', VList [VDict leila_record, VDict amine_record]),
                        (py ''count'', VInt 2)] (py ''items'') = Some (VList items)
          \<and> map_of [(py ''items'', VList [VDict leila_record, VDict amine_record]),
                      (py ''count'', VInt 2)] (py ''count'') = Some (VInt (int (length items))))"
  using count_is_length [OF run_all] run_all by blast

lemma run_one:
  "list_employees_request mem_database None None None None None (Some 1) example_store
     = (Inr [(py ''items'', VList [VDict leila_record]), (py ''count'', VInt 1)],
        example_store\<lparr>calls := 1\<rparr>)"
  by (simp add: run_defs)

lemma run_one_cap:
  "\<forall>docs s1. get_documents mem_database (py ''employee'') (filter_query None None None None None)
       (case Some 1 of None \<Rightarrow> 200 | Some n \<Rightarrow> n) example_store = (Inr docs, s1)
     \<longrightarrow> int (length docs) \<le> (case Some 1 of None \<Rightarrow> 200 | Some n \<Rightarrow> n)"
  by (auto simp: mem_database_def mem_get_documents_def)

text \<open>The example store holds two records; with \<open>limit=1\<close> one item comes back.\<close>

theorem limit_bound_witness:
  "list_employees_request mem_database None None None None None (Some 1) example_store
     = (Inr [(py ''items'', VList [VDict leila_record]), (py ''count'', VInt 1)],
        example_store\<lparr>calls := 1\<rparr>)
   \<and> (\<exists>items. map_of [(py ''items'', VList [VDict leila_record]), (py ''count'', VInt 1)]
                  (py ''items'') = Some (VList items)
          \<and> int (length items) \<le> 1 \<and> length items \<le> 500)"
  using limit_bound [OF run_one run_one_cap] run_one by simp

text \<open>\<open>limit=501\<close> on the example store: rejected, and the store has counted no call.\<close>

theorem limit_rejected_witness:
  "(500::int) < 501
   \<and> list_employees_request mem_database None None None None None (Some 501) example_store
       = (Inl RequestValidationError, example_store)
   \<and> calls example_store = 0"
  using limit_rejected [of 501 mem_database None None None None None example_store]
  by (simp add: example_store_def)

section \<open>Splitting and trimming\<close>

lemma py_split_nonempty: "py_split sep s \<noteq> []"
  by (induction s) (auto split: list.splits)

lemma join_Cons_head: "join sep ((c # p) # ps) = c # join sep (p # ps)"
  by (cases ps) simp_all

lemma join_py_split: "join [sep] (py_split sep s) = s"
proof (induction s)
  case Nil
  show ?case by simp
next
  case (Cons c cs)
  obtain p ps where ps: "py_split sep cs = p # ps"
    using py_split_nonempty [of sep cs] by (cases "py_split sep cs") auto
  show ?case
  proof (cases "c = sep")
    case True
    with Cons ps show ?thesis by simp
  next
    case False
    with Cons ps show ?thesis by (simp add: join_Cons_head)
  qed
qed

lemma py_split_no_sep: "p \<in> set (py_split sep s) \<Longrightarrow> sep \<notin> set p"
proof (induction s arbitrary: p)
  case Nil
  then show ?case by simp
next
  case (Cons c cs)
  obtain p0 ps where ps: "py_split sep cs = p0 # ps"
    using py_split_nonempty [of sep cs] by (cases "py_split sep cs") auto
  show ?case
  proof (cases "c = sep")
    case True
    with Cons.prems Cons.IH show ?thesis by auto
  next
    case False
    with Cons.prems ps have "p = c # p0 \<or> p \<in> set ps" by auto
    then show ?thesis
    proof
      assume "p = c # p0"
      moreover have "sep \<notin> set p0" using Cons.IH [of p0] ps by simp
      ultimately show ?thesis using False by auto
    next
      assume "p \<in> set ps"
      then show ?thesis using Cons.IH [of p] ps by simp
    qed
  qed
qed

lemma rev_take_drop: "rev (dropWhile P xs) @ rev (takeWhile P xs) = rev xs"
  by (metis rev_append takeWhile_dropWhile_id)

lemma py_strip_split:
  "\<exists>a b. t = a @ py_strip t @ b \<and> list_all isspace a \<and> list_all isspace b"
proof -
  let ?m = "dropWhile isspace t"
  have 1: "t = takeWhile isspace t @ ?m" by simp
  have 2: "?m = py_strip t @ rev (takeWhile isspace (rev ?m))"
    using rev_take_drop [of isspace "rev ?m"] by (simp add: py_strip_def)
  have a: "list_all isspace (takeWhile isspace t)"
    by (simp add: list_all_iff) (meson set_takeWhileD)
  have b: "list_all isspace (rev (takeWhile isspace (rev ?m)))"
    by (simp add: list_all_iff) (meson set_takeWhileD)
  from 1 2 have "t = takeWhile isspace t @ py_strip t @ rev (takeWhile isspace (rev ?m))"
    by simp
  with a b show ?thesis by blast
qed

lemma py_strip_ends:
  assumes "py_strip t \<noteq> []"
  shows "\<not> isspace (hd (py_strip t)) \<and> \<not> isspace (last (py_strip t))"
proof -
  let ?m = "dropWhile isspace t"
  let ?d = "dropWhile isspace (rev ?m)"
  from assms have d: "?d \<noteq> []" by (simp add: py_strip_def)
  then have l: "\<not> isspace (hd ?d)" by (rule hd_dropWhile)
  have "last (py_strip t) = hd ?d"
    using d by (simp add: py_strip_def last_rev)
  with l have last: "\<not> isspace (last (py_strip t))" by simp
  have m: "?m \<noteq> []"
  proof
    assume e: "?m = []"
    from d show False unfolding e by simp
  qed
  then have hm: "\<not> isspace (hd ?m)" by (rule hd_dropWhile)
  have "?m = py_strip t @ rev (takeWhile isspace (rev ?m))"
    using rev_take_drop [of isspace "rev ?m"] by (simp add: py_strip_def)
  then have "hd ?m = hd (py_strip t)"
    using assms by (metis hd_append2)
  with hm last show ?thesis by simp
qed

lemma tag_list_eq: "tag_list ts = filter (\<lambda>p. p \<noteq> []) (map py_strip (py_split 44 ts))"
proof -
  have "concat (map (\<lambda>t. if f t \<noteq> [] then [f t] else []) xs) = filter (\<lambda>p. p \<noteq> []) (map f xs)"
    for f :: "pystr \<Rightarrow> pystr" and xs
    by (induction xs) auto
  then show ?thesis by (simp add: tag_list_def)
qed

lemma tag_list_trimmed:
  "p \<in> set (tag_list ts) \<Longrightarrow> p \<noteq> [] \<and> \<not> isspace (hd p) \<and> \<not> isspace (last p)"
proof -
  assume "p \<in> set (tag_list ts)"
  then obtain t where "p = py_strip t" and "p \<noteq> []"
    by (auto simp: tag_list_eq)
  then show ?thesis using py_strip_ends [of t] by simp
qed

section \<open>String forms are not empty\<close>

lemma decimal_nonempty: "decimal n \<noteq> []"
  by (subst decimal.simps) simp

lemma py_str_nonempty: "v \<noteq> VStr [] \<Longrightarrow> py_str v \<noteq> []"
  by (cases v) (auto simp: py_str_def decimal_nonempty oid_str_def py_Cons)

section \<open>The free-text clause\<close>

lemma match_here_literal:
  "46 \<notin> set pat \<Longrightarrow> match_here True pat s = prefix (map lower pat) (map lower s)"
  by (induction "True" pat s rule: match_here.induct) auto

lemma regex_search_literal:
  "46 \<notin> set pat \<Longrightarrow> regex_search True pat s = sublist (map lower pat) (map lower s)"
proof (induction s)
  case Nil
  then show ?case by (cases pat) auto
next
  case (Cons c cs)
  then show ?case
    by (simp add: match_here_literal sublist_Cons_right)
qed

lemma no_metachar_no_dot: "\<not> list_ex metachar q \<Longrightarrow> 46 \<notin> set q"
  by (auto simp: list_ex_iff metachar_def)

lemma cond_holds_regex_i:
  "cond_holds (regex_i q) fv = (case fv of Some (VStr s) \<Rightarrow> regex_search True q s | _ \<Rightarrow> False)"
  by (simp add: cond_holds_def regex_i_def split: option.splits pyval.splits)

lemma or_clauses_fields: "or_clauses q = map (\<lambda>f. VDict [(f, regex_i q)]) search_fields"
  by (simp add: or_clauses_def search_fields_def)

lemma alternative_regex:
  "alternative_holds doc (VDict [(f, regex_i q)]) = field_matches q doc f"
  by (simp add: alternative_holds_def clause_holds_def cond_holds_regex_i field_matches_def)

lemma matches_or_clauses:
  "matches [(py ''$or'', VList (or_clauses q))] doc = some_field_matches q doc"
  by (simp add: matches_def or_clauses_fields some_field_matches_def list_ex_iff alternative_regex)

lemma field_matches_literal:
  "46 \<notin> set q \<Longrightarrow> field_matches q doc = field_contains q doc"
  by (rule ext)
     (simp add: field_matches_def field_contains_def contains_ci_def regex_search_literal
           split: option.splits pyval.splits)

lemma filter_query_or:
  "q \<noteq> [] \<Longrightarrow> map_of (filter_query (Some q) dep loc act tags) (py ''$or'') = Some (VList (or_clauses q))"
  by (simp add: filter_query_def dict_set_def update_conv' Let_def split: option.splits)

lemma filter_query_only_q:
  "q \<noteq> [] \<Longrightarrow> filter_query (Some q) None None None None = [(py ''$or'', VList (or_clauses q))]"
  by (simp add: filter_query_def dict_set_def)

text \<open>
  Claim C1 (as amended). For a present, non-empty \<open>q\<close> the filter holds one clause
  \<open>$or\<close>; its alternatives apply \<open>q\<close>, as an unescaped pattern with option \<open>i\<close>, to
  exactly the eight fields \<open>firstName\<close>, \<open>lastName\<close>, \<open>full_name\<close>, \<open>title\<close>,
  \<open>department\<close>, \<open>email\<close>, \<open>phone\<close>, \<open>location\<close>. A record is selected by that clause if
  and only if the pattern \<open>q\<close> matches the text of at least one of these fields; when
  \<open>q\<close> holds no pattern metacharacter, that is: if and only if at least one of these
  fields contains \<open>q\<close> as a substring, case-insensitively.
\<close>

theorem free_text_clause:
  assumes "q \<noteq> []"
  shows "filter_query (Some q) None None None None = [(py ''$or'', VList (or_clauses q))]
       \<and> map_of (filter_query (Some q) dep loc act tags) (py ''$or'') = Some (VList (or_clauses q))
       \<and> or_clauses q = map (\<lambda>f. VDict [(f, regex_i q)]) search_fields
       \<and> (matches [(py ''$or'', VList (or_clauses q))] doc \<longleftrightarrow> some_field_matches q doc)
       \<and> (\<not> list_ex metachar q \<longrightarrow>
            (matches [(py ''$or'', VList (or_clauses q))] doc \<longleftrightarrow> some_field_contains q doc))"
proof -
  have "some_field_matches q doc = some_field_contains q doc" if "\<not> list_ex metachar q"
    using no_metachar_no_dot [OF that]
    by (simp add: some_field_matches_def some_field_contains_def field_matches_literal)
  then show ?thesis
    using assms
    by (simp add: filter_query_only_q filter_query_or or_clauses_fields [symmetric] matches_or_clauses)
qed

lemmas str_defs = lower_def contains_ci_def sublist_code metachar_def

text \<open>
  Claim C1 as stated fails: with \<open>q = "."\<close> the clause selects a record whose only
  field is \<open>firstName = "Zed"\<close>, and none of its fields contains a full stop.
\<close>

theorem free_text_counterexample:
  "matches (filter_query (Some (py ''.'')) None None None None) zed_record
   \<and> \<not> some_field_contains (py ''.'') zed_record"
proof -
  have ne: "py ''.'' \<noteq> []" by (simp add: py_Cons)
  have "matches (filter_query (Some (py ''.'')) None None None None) zed_record
          = some_field_matches (py ''.'') zed_record"
    by (simp only: filter_query_only_q [OF ne] matches_or_clauses)
  moreover have "some_field_matches (py ''.'') zed_record"
    by (simp add: some_field_matches_def search_fields_def field_matches_def zed_record_def py_Cons)
  moreover have "\<not> some_field_contains (py ''.'') zed_record"
    by (simp add: some_field_contains_def search_fields_def field_contains_def zed_record_def
          py_Cons str_defs)
  ultimately show ?thesis by simp
qed

text \<open>
  \<open>q = "hr"\<close> selects the record with department \<open>HR\<close> and not the one with
  department \<open>IT\<close>.
\<close>

theorem free_text_clause_witness:
  "py ''hr'' \<noteq> [] \<and> \<not> list_ex metachar (py ''hr'')
   \<and> matches [(py ''$or'', VList (or_clauses (py ''hr'')))] leila_record
   \<and> some_field_contains (py ''hr'') leila_record
   \<and> \<not> matches [(py ''$or'', VList (or_clauses (py ''hr'')))] amine_record"
proof -
  have 1: "py ''hr'' \<noteq> []" by (simp add: py_Cons)
  have 2: "\<not> list_ex metachar (py ''hr'')" by (simp add: py_Cons metachar_def)
  have 3: "some_field_contains (py ''hr'') leila_record"
    by (simp add: some_field_contains_def search_fields_def field_contains_def
          leila_record_def py_Cons str_defs)
  have 4: "\<not> some_field_contains (py ''hr'') amine_record"
    by (simp add: some_field_contains_def search_fields_def field_contains_def
          amine_record_def py_Cons str_defs)
  from free_text_clause [OF 1, of None None None None leila_record] 2 3
  have 5: "matches [(py ''$or'', VList (or_clauses (py ''hr'')))] leila_record" by blast
  from free_text_clause [OF 1, of None None None None amine_record] 2 4
  have 6: "\<not> matches [(py ''$or'', VList (or_clauses (py ''hr'')))] amine_record" by blast
  from 1 2 3 5 6 show ?thesis by blast
qed

section \<open>Normalizing a record\<close>

text \<open>
  Claim C2 (as amended). Normalizing a record that has no field \<open>_id\<close> leaves every
  other field as it is and sets \<open>id\<close> to the text \<open>None\<close>, the string form of the
  missing identifier; it never fails. From the second application on, normalizing
  changes nothing more.
\<close>

theorem normalize_already_normalized:
  "(py ''_id'' \<notin> fst ` set d \<longrightarrow> normalize_doc d = dict_set (py ''id'') (VStr (py ''None'')) d)
   \<and> normalize_doc (normalize_doc (normalize_doc d)) = normalize_doc (normalize_doc d)"
  using normalize_without_raw_id [of d] normalize_thrice [of d] by blast

lemma normalize_raw_leila:
  "normalize_doc raw_leila
     = [(py ''firstName'', VStr (py ''Leila'')), (py ''id'', VStr (py ''000000000000000000000001''))]"
  by (simp add: run_defs raw_leila_def)

lemma normalize_raw_leila_twice:
  "normalize_doc (normalize_doc raw_leila)
     = [(py ''firstName'', VStr (py ''Leila'')), (py ''id'', VStr (py ''None''))]"
  by (simp only: normalize_raw_leila) (simp add: run_defs)

text \<open>
  Claim C2 as stated fails: normalizing a stored record gives a record without \<open>_id\<close>
  whose \<open>id\<close> is the identifier's text; normalizing that record again replaces the
  \<open>id\<close> by \<open>None\<close>, so normalizing twice differs from normalizing once.
\<close>

theorem normalize_twice_counterexample:
  "py ''_id'' \<notin> fst ` set (normalize_doc raw_leila)
   \<and> normalize_doc raw_leila
       = [(py ''firstName'', VStr (py ''Leila'')), (py ''id'', VStr (py ''000000000000000000000001''))]
   \<and> normalize_doc (normalize_doc raw_leila)
       = [(py ''firstName'', VStr (py ''Leila'')), (py ''id'', VStr (py ''None''))]
   \<and> normalize_doc (normalize_doc raw_leila) \<noteq> normalize_doc raw_leila"
proof -
  have "normalize_doc (normalize_doc raw_leila) \<noteq> normalize_doc raw_leila"
    by (simp only: normalize_raw_leila_twice, simp only: normalize_raw_leila, simp add: py_Cons)
  with normalize_no_raw_id [of raw_leila] normalize_raw_leila normalize_raw_leila_twice
  show ?thesis by blast
qed

text \<open>A returned record of the example store has no \<open>_id\<close>; normalizing it sets \<open>id\<close> to \<open>None\<close>.\<close>

theorem normalize_already_normalized_witness:
  "py ''_id'' \<notin> fst ` set leila_record
   \<and> normalize_doc leila_record = dict_set (py ''id'') (VStr (py ''None'')) leila_record
   \<and> map_of (normalize_doc leila_record) (py ''id'') = Some (VStr (py ''None''))"
proof -
  have 1: "py ''_id'' \<notin> fst ` set leila_record"
    by (simp add: leila_record_def)
  from normalize_already_normalized [of leila_record] 1
  have 2: "normalize_doc leila_record = dict_set (py ''id'') (VStr (py ''None'')) leila_record"
    by blast
  have "map_of (dict_set (py ''id'') (VStr (py ''None'')) leila_record) (py ''id'')
          = Some (VStr (py ''None''))"
    by (simp add: dict_set_def update_conv')
  with 1 2 show ?thesis by simp
qed

section \<open>The identifier of a returned record\<close>

text \<open>
  Claim C8 (as amended). Every record the list operation returns is the normalized
  form of a document the store returned: it has no field \<open>_id\<close>, and its field \<open>id\<close>
  is a string, the string form of the stored \<open>_id\<close> (of \<open>None\<close> when the document has
  none), which is not empty unless the stored \<open>_id\<close> is itself the empty string.
\<close>

theorem returned_record_id:
  assumes "list_employees_request dbm q dep loc act tags limit s = (Inr resp, s')"
  shows "\<exists>raw. map_of resp (py ''items'') = Some (VList (map (\<lambda>d. VDict (normalize_doc d)) raw))
           \<and> (\<forall>d \<in> set raw.
                 py ''_id'' \<notin> fst ` set (normalize_doc d)
                 \<and> map_of (normalize_doc d) (py ''id'')
                     = Some (VStr (py_str (dict_get d (py ''_id''))))
                 \<and> (dict_get d (py ''_id'') \<noteq> VStr [] \<longrightarrow> py_str (dict_get d (py ''_id'')) \<noteq> []))"
proof -
  from list_employees_request_Inr [OF assms] obtain n where
    "list_employees dbm q dep loc act tags n s = (Inr resp, s')" by blast
  from list_employees_Inr [OF this] obtain raw where
    r: "resp = [(py ''items'', VList (map VDict (map normalize_doc raw))),
                (py ''count'', VInt (int (length raw)))]" by blast
  have "map_of resp (py ''items'') = Some (VList (map (\<lambda>d. VDict (normalize_doc d)) raw))"
    by (simp add: r comp_def)
  moreover have "\<forall>d \<in> set raw.
      py ''_id'' \<notin> fst ` set (normalize_doc d)
      \<and> map_of (normalize_doc d) (py ''id'') = Some (VStr (py_str (dict_get d (py ''_id''))))
      \<and> (dict_get d (py ''_id'') \<noteq> VStr [] \<longrightarrow> py_str (dict_get d (py ''_id'')) \<noteq> [])"
    by (simp add: normalize_no_raw_id map_of_normalize py_str_nonempty)
  ultimately show ?thesis by blast
qed

lemma run_odd:
  "list_employees_request mem_database None None None None None None odd_store
     = (Inr [(py ''items'', VList [VDict [(py ''firstName'', VStr (py ''Zed'')), (py ''id'', VStr [])]]),
             (py ''count'', VInt 1)], odd_store\<lparr>calls := 1\<rparr>)"
  by (simp add: run_defs)

text \<open>
  Claim C8 as stated fails: for a stored document whose \<open>_id\<close> is the empty string,
  the returned record's \<open>id\<close> is the empty string.
\<close>

theorem returned_record_id_counterexample:
  "list_employees_request mem_database None None None None None None odd_store
     = (Inr [(py ''items'', VList [VDict [(py ''firstName'', VStr (py ''Zed'')), (py ''id'', VStr [])]]),
             (py ''count'', VInt 1)], odd_store\<lparr>calls := 1\<rparr>)
   \<and> map_of [(py ''firstName'', VStr (py ''Zed'')), (py ''id'', VStr [])] (py ''id'') = Some (VStr [])"
  using run_odd by simp

text \<open>The example store: the identifiers are store-assigned, and the \<open>id\<close>s are not empty.\<close>

theorem returned_record_id_witness:
  "list_employees_request mem_database None None None None None None example_store
     = (Inr [(py ''items'', VList [VDict leila_record, VDict amine_record]),
             (py ''count'', VInt 2)], example_store\<lparr>calls := 1\<rparr>)
   \<and> (\<exists>raw. [VDict leila_record, VDict amine_record] = map (\<lambda>d. VDict (normalize_doc d)) raw
         \<and> (\<forall>d \<in> set raw.
               py ''_id'' \<notin> fst ` set (normalize_doc d)
               \<and> map_of (normalize_doc d) (py ''id'')
                   = Some (VStr (py_str (dict_get d (py ''_id''))))
               \<and> (dict_get d (py ''_id'') \<noteq> VStr [] \<longrightarrow> py_str (dict_get d (py ''_id'')) \<noteq> [])))
   \<and> map_of leila_record (py ''id'') = Some (VStr (py ''000000000000000000000001''))
   \<and> py ''_id'' \<notin> fst ` set leila_record"
proof -
  have "map_of leila_record (py ''id'') = Some (VStr (py ''000000000000000000000001''))"
    by (simp add: leila_record_def)
  moreover have "py ''_id'' \<notin> fst ` set leila_record"
    by (simp add: leila_record_def)
  ultimately show ?thesis
    using returned_record_id [OF run_all] run_all by simp
qed

section \<open>An unavailable store\<close>

text \<open>
  Claim C6. When \<open>db\<close> is \<open>None\<close>, the list function and the seed function fail with
  status 500 and leave the store as it was, whatever \<open>get_documents\<close> and
  \<open>create_document\<close> are (so neither was called); the same holds for a list request
  whose limit passes the parameter check. \<open>test_database\<close> does not fail: it returns a
  body that reports the store as not initialized and not connected.
\<close>

theorem store_unavailable:
  assumes "db dbm = None"
  shows "list_employees dbm q dep loc act tags n s
           = (Inl (HTTPException 500 (py ''Database not configured'')), s)
       \<and> (limit_param limit = Inr n \<longrightarrow>
            list_employees_request dbm q dep loc act tags limit s
              = (Inl (HTTPException 500 (py ''Database not configured'')), s))
       \<and> seed_employees dbm s = (Inl (HTTPException 500 (py ''Database not configured'')), s)
       \<and> status_code (HTTPException 500 (py ''Database not configured'')) = 500
       \<and> test_database (Imported (db dbm)) getenv s
           = ([(py ''backend'', VStr ([9989] @ py '' Running'')),
               (py ''database'', VStr ([9888, 65039] @ py ''  Available but not initialized'')),
               (py ''database_url'',
                  VStr (if env_set getenv (py ''DATABASE_URL'')
                        then [9989] @ py '' Set'' else [10060] @ py '' Not Set'')),
               (py ''database_name'',
                  VStr (if env_set getenv (py ''DATABASE_NAME'')
                        then [9989] @ py '' Set'' else [10060] @ py '' Not Set'')),
               (py ''connection_status'', VStr (py ''Not Connected'')),
               (py ''collections'', VList [])], s)"
proof -
  have 1: "list_employees dbm q dep loc act tags n s
             = (Inl (HTTPException 500 (py ''Database not configured'')), s)"
    using assms by (simp add: list_employees_def)
  have 2: "seed_employees dbm s = (Inl (HTTPException 500 (py ''Database not configured'')), s)"
    using assms by (simp add: seed_employees_def)
  have 3: "test_database (Imported None) getenv s
           = ([(py ''backend'', VStr ([9989] @ py '' Running'')),
               (py ''database'', VStr ([9888, 65039] @ py ''  Available but not initialized'')),
               (py ''database_url'',
                  VStr (if env_set getenv (py ''DATABASE_URL'')
                        then [9989] @ py '' Set'' else [10060] @ py '' Not Set'')),
               (py ''database_name'',
                  VStr (if env_set getenv (py ''DATABASE_NAME'')
                        then [9989] @ py '' Set'' else [10060] @ py '' Not Set'')),
               (py ''connection_status'', VStr (py ''Not Connected'')),
               (py ''collections'', VList [])], s)"
    by (simp add: test_database_def response0_def dict_set_def)
  from 1 2 3 assms show ?thesis
    by (simp add: list_employees_request_def)
qed

text \<open>The unconfigured module on the example store.\<close>

theorem store_unavailable_witness:
  "db unconfigured_database = None
   \<and> limit_param None = Inr 200
   \<and> list_employees_request unconfigured_database None None None None None None example_store
       = (Inl (HTTPException 500 (py ''Database not configured'')), example_store)
   \<and> seed_employees unconfigured_database example_store
       = (Inl (HTTPException 500 (py ''Database not configured'')), example_store)
   \<and> map_of (fst (test_database (Imported (db unconfigured_database)) (\<lambda>name. None) example_store))
        (py ''connection_status'') = Some (VStr (py ''Not Connected''))
   \<and> snd (test_database (Imported (db unconfigured_database)) (\<lambda>name. None) example_store)
       = example_store"
proof -
  have 1: "db unconfigured_database = None"
    by (simp add: unconfigured_database_def)
  have 2: "limit_param None = Inr 200"
    by (simp add: limit_param_def)
  from store_unavailable [OF 1, of None None None None None 200 example_store None "\<lambda>name. None"] 1 2
  show ?thesis by simp
qed

section \<open>Seeding\<close>

text \<open>
  Claim C7. With a store handle present, and whatever each insertion does, the seed
  function inserts each of the three sample records in turn, never fails, and
  returns as \<open>inserted\<close> the number of insertions that succeeded; that number is 3
  when all succeed.
\<close>

theorem seed_inserts_each:
  assumes "db dbm = Some h"
  shows "\<exists>outcomes s'.
           attempts (create_document dbm (py ''employee'')) sample s = (outcomes, s')
           \<and> length outcomes = length sample \<and> length sample = 3
           \<and> seed_employees dbm s
               = (Inr [(py ''inserted'', VInt (int (length (filter succeeded outcomes))))], s')
           \<and> (list_all succeeded outcomes \<longrightarrow>
                seed_employees dbm s = (Inr [(py ''inserted'', VInt 3)], s'))"
proof -
  let ?ins = "create_document dbm (py ''employee'')"
  obtain outcomes s' where a: "attempts ?ins sample s = (outcomes, s')"
    by (cases "attempts ?ins sample s")
  have l: "length outcomes = length sample"
    using length_attempts [of ?ins sample s] a by simp
  have r: "seed_employees dbm s
             = (Inr [(py ''inserted'', VInt (int (length (filter succeeded outcomes))))], s')"
    using assms a by (simp add: seed_employees_def seed_loop_attempts)
  have "filter succeeded outcomes = outcomes" if "list_all succeeded outcomes"
    using that by (simp add: list_all_iff)
  with l r length_sample
  have "list_all succeeded outcomes \<longrightarrow>
          seed_employees dbm s = (Inr [(py ''inserted'', VInt 3)], s')"
    by auto
  with a l r length_sample show ?thesis by blast
qed

lemma attempts_scripted_ok:
  "attempts (create_document scripted_database (py ''employee'')) sample [True, True, True]
     = ([Inr VNone, Inr VNone, Inr VNone], [])"
  by (simp add: scripted_database_def scripted_create_document_def sample_def)

lemma attempts_scripted_fail:
  "attempts (create_document scripted_database (py ''employee'')) sample [True, False, True]
     = ([Inr VNone, Inl (PyException (py ''write failed'')), Inr VNone], [])"
  by (simp add: scripted_database_def scripted_create_document_def sample_def)

text \<open>Three successful insertions give 3; a failure of the second one gives 2.\<close>

theorem seed_inserts_each_witness:
  "db scripted_database = Some \<lparr>db_name = None, list_collection_names = (\<lambda>s. (Inr [], s))\<rparr>
   \<and> attempts (create_document scripted_database (py ''employee'')) sample [True, True, True]
       = ([Inr VNone, Inr VNone, Inr VNone], [])
   \<and> list_all succeeded [Inr VNone, Inr VNone, Inr VNone]
   \<and> seed_employees scripted_database [True, True, True] = (Inr [(py ''inserted'', VInt 3)], [])
   \<and> attempts (create_document scripted_database (py ''employee'')) sample [True, False, True]
       = ([Inr VNone, Inl (PyException (py ''write failed'')), Inr VNone], [])
   \<and> seed_employees scripted_database [True, False, True] = (Inr [(py ''inserted'', VInt 2)], [])"
proof -
  have h: "db scripted_database = Some \<lparr>db_name = None, list_collection_names = (\<lambda>s. (Inr [], s))\<rparr>"
    by (simp add: scripted_database_def)
  have ok: "list_all succeeded [Inr VNone, Inr VNone, Inr VNone]"
    by (simp add: succeeded_def)
  from seed_inserts_each [OF h, of "[True, True, True]"] attempts_scripted_ok ok
  have 1: "seed_employees scripted_database [True, True, True] = (Inr [(py ''inserted'', VInt 3)], [])"
    by auto
  from seed_inserts_each [OF h, of "[True, False, True]"] attempts_scripted_fail
  have 2: "seed_employees scripted_database [True, False, True] = (Inr [(py ''inserted'', VInt 2)], [])"
    by (auto simp: succeeded_def)
  from h ok 1 2 attempts_scripted_ok attempts_scripted_fail show ?thesis by blast
qed

section \<open>The tags clause\<close>

lemma filter_query_tags_some:
  "tag_list ts \<noteq> [] \<Longrightarrow>
     map_of (filter_query q dep loc act (Some ts)) (py ''tags'')
       = Some (VDict [(py ''$all'', VList (map VStr (tag_list ts)))])"
proof -
  assume a: "tag_list ts \<noteq> []"
  have "ts \<noteq> []"
  proof
    assume "ts = []"
    then have "tag_list ts = []" by (simp add: tag_list_def py_strip_def)
    with a show False by simp
  qed
  with a show ?thesis
    by (simp add: filter_query_def dict_set_def update_conv' Let_def)
qed

lemma filter_query_tags_none:
  "tag_list ts = [] \<Longrightarrow> map_of (filter_query q dep loc act (Some ts)) (py ''tags'') = None"
  by (simp add: filter_query_def dict_set_def update_conv' Let_def split: option.splits)

lemma filter_query_only_tags:
  "tag_list ts \<noteq> [] \<Longrightarrow>
     filter_query None None None None (Some ts)
       = [(py ''tags'', VDict [(py ''$all'', VList (map VStr (tag_list ts)))])]"
proof -
  assume a: "tag_list ts \<noteq> []"
  have "ts \<noteq> []"
  proof
    assume "ts = []"
    then have "tag_list ts = []" by (simp add: tag_list_def py_strip_def)
    with a show False by simp
  qed
  with a show ?thesis
    by (simp add: filter_query_def dict_set_def)
qed

lemma clause_holds_all:
  "clause_holds doc (py ''tags'', VDict [(py ''$all'', VList (map VStr wanted))])
     = has_all_tags wanted doc"
  by (simp add: clause_holds_def cond_holds_def has_all_tags_def list_all_iff
           split: option.splits pyval.splits)

lemma matches_only_tags:
  "matches [(py ''tags'', VDict [(py ''$all'', VList (map VStr wanted))])] doc
     = has_all_tags wanted doc"
  by (simp add: matches_def clause_holds_all)

text \<open>
  Claim C3. \<open>tag_list\<close> is the list of the non-empty trimmed pieces of the \<open>tags\<close>
  string, the pieces being what lies between its commas; no entry of it is empty or
  begins or ends with whitespace. If a piece remains, the
  filter holds the clause \<open>tags: {"$all": pieces}\<close>, which a record satisfies if and
  only if its \<open>tags\<close> list holds every piece, so that a record holding only some of
  them is excluded; if none remains, the filter has no clause for \<open>tags\<close>.
\<close>

theorem tags_clause:
  "tag_list ts = filter (\<lambda>p. p \<noteq> []) (map py_strip (py_split 44 ts))
   \<and> join [44] (py_split 44 ts) = ts
   \<and> (\<forall>p \<in> set (py_split 44 ts). 44 \<notin> set p)
   \<and> (\<forall>p \<in> set (tag_list ts). p \<noteq> [] \<and> \<not> isspace (hd p) \<and> \<not> isspace (last p))
   \<and> (tag_list ts \<noteq> [] \<longrightarrow>
        map_of (filter_query q dep loc act (Some ts)) (py ''tags'')
          = Some (VDict [(py ''$all'', VList (map VStr (tag_list ts)))])
        \<and> (clause_holds doc (py ''tags'', VDict [(py ''$all'', VList (map VStr (tag_list ts)))])
             \<longleftrightarrow> has_all_tags (tag_list ts) doc)
        \<and> (matches (filter_query None None None None (Some ts)) doc
             \<longleftrightarrow> has_all_tags (tag_list ts) doc))
   \<and> (tag_list ts = [] \<longrightarrow>
        map_of (filter_query q dep loc act (Some ts)) (py ''tags'') = None)"
proof -
  have "matches (filter_query None None None None (Some ts)) doc
          = has_all_tags (tag_list ts) doc" if "tag_list ts \<noteq> []"
    by (simp only: filter_query_only_tags [OF that] matches_only_tags)
  then show ?thesis
    using tag_list_eq [of ts] join_py_split [of 44 ts] py_split_no_sep [of _ 44 ts]
      tag_list_trimmed [of _ ts]
      filter_query_tags_some [of ts q dep loc act] filter_query_tags_none [of ts q dep loc act]
      clause_holds_all [of doc "tag_list ts"]
    by blast
qed

lemma tag_list_linux_devops: "tag_list (py ''Linux, DevOps'') = [py ''Linux'', py ''DevOps'']"
  by (simp add: tag_list_def py_strip_def isspace_def py_Cons)

lemma tag_list_blank: "tag_list (py '' , '') = []"
  by (simp add: tag_list_def py_strip_def isspace_def py_Cons)

text \<open>
  \<open>tags = "Linux, DevOps"\<close> selects the record tagged DevOps and Linux and excludes the
  record tagged Linux only; \<open>tags = " , "\<close> adds no clause.
\<close>

theorem tags_clause_witness:
  "tag_list (py ''Linux, DevOps'') = [py ''Linux'', py ''DevOps'']
   \<and> matches (filter_query None None None None (Some (py ''Linux, DevOps''))) leila_record
   \<and> \<not> matches (filter_query None None None None (Some (py ''Linux, DevOps''))) amine_record
   \<and> tag_list (py '' , '') = []
   \<and> map_of (filter_query None None None None (Some (py '' , ''))) (py ''tags'') = None"
proof -
  have ne: "tag_list (py ''Linux, DevOps'') \<noteq> []"
    by (simp only: tag_list_linux_devops) simp
  have l: "has_all_tags (tag_list (py ''Linux, DevOps'')) leila_record"
    by (simp only: tag_list_linux_devops) (simp add: has_all_tags_def leila_record_def py_Cons)
  have a: "\<not> has_all_tags (tag_list (py ''Linux, DevOps'')) amine_record"
    by (simp only: tag_list_linux_devops) (simp add: has_all_tags_def amine_record_def py_Cons)
  from tags_clause [of "py ''Linux, DevOps''" None None None None leila_record] ne l
  have 1: "matches (filter_query None None None None (Some (py ''Linux, DevOps''))) leila_record"
    by blast
  from tags_clause [of "py ''Linux, DevOps''" None None None None amine_record] ne a
  have 2: "\<not> matches (filter_query None None None None (Some (py ''Linux, DevOps''))) amine_record"
    by blast
  from tags_clause [of "py '' , ''" None None None None leila_record] tag_list_blank
  have 3: "map_of (filter_query None None None None (Some (py '' , ''))) (py ''tags'') = None"
    by blast
  from 1 2 3 tag_list_linux_devops tag_list_blank show ?thesis by blast
qed

end
